theory Spec2Isabelle
  imports Complex_Main "HOL-Library.Product_Lexorder" "HOL-Library.Multiset"
begin

section \<open>GTFS feed analysis: tables, segment counts, route maps\<close>

text \<open>
  A shallow embedding of \<^verbatim>\<open>src/main.py\<close>. The pandas, folium and file-system calls of
  the source are modelled by the list functions below, one function per library call:
  \<^item> a DataFrame is the list of its rows, in row order; each of the four GTFS tables has
    its own row record with the columns the program reads;
  \<^item> identifiers are kept polymorphic: \<open>'k\<close> for \<^verbatim>\<open>trip_id\<close> (ordered, as the
    program sorts by it), \<open>'s\<close> for \<^verbatim>\<open>stop_id\<close>, \<open>'r\<close> for \<^verbatim>\<open>route_id\<close>;
  \<^item> the key columns \<^verbatim>\<open>trip_id\<close>, \<^verbatim>\<open>stop_sequence\<close> and \<^verbatim>\<open>stop_id\<close> hold a value in every
    row; \<^verbatim>\<open>route_id\<close>, \<^verbatim>\<open>stop_lat\<close> and \<^verbatim>\<open>stop_lon\<close> may be null (\<open>None\<close>);
  \<^item> a coordinate is a float64 value, modelled by the real number it denotes; the program
    copies coordinates and takes their mean, and float64 arithmetic is not modelled: the
    result of a mean is recorded as the list of the values it is the mean of;
  \<^item> printed lines are values of the datatype \<open>message\<close>, one constructor per
    \<^verbatim>\<open>print\<close> call of the source, collected in order;
  \<^item> an exception is a value \<open>Inl e\<close> of the result type.
\<close>

subsection \<open>Tables\<close>

record ('k, 'r) trip =
  trip_id :: 'k
  route_id :: "'r option"

record ('k, 's) stop_time =
  st_trip_id :: 'k
  st_stop_sequence :: int
  st_stop_id :: 's

record 'r route =
  r_route_id :: 'r

record 's stop =
  s_stop_id :: 's
  stop_lat :: "real option"
  stop_lon :: "real option"

text \<open>
  The stops table carries its column names, because \<^verbatim>\<open>plot_routes_on_map\<close> tests
  \<^verbatim>\<open>'stop_lat' not in stops_df\<close>, which is a test on the columns of a DataFrame.
\<close>

record 's stops_table =
  stops_columns :: "string list"
  stops_rows :: "'s stop list"

text \<open>
  The dictionary \<^verbatim>\<open>gtfs_files\<close>: its only possible keys are the four entries of
  \<^verbatim>\<open>required_files\<close>; a key that is absent is \<open>None\<close>.
\<close>

record ('k, 's, 'r) gtfs_files =
  trips_txt :: "('k, 'r) trip list option"
  stop_times_txt :: "('k, 's) stop_time list option"
  routes_txt :: "'r route list option"
  stops_txt :: "'s stops_table option"

datatype py_error = KeyError string | ValueError string

datatype 'k message =
    Error_loading string string string
      \<comment> \<open>\<^verbatim>\<open>Error loading {file_name} in {directory}: {e}\<close>\<close>
  | Warning_not_found string string
      \<comment> \<open>\<^verbatim>\<open>Warning: {file_name} not found in {directory}\<close>\<close>
  | Warning_missing_some string
      \<comment> \<open>\<^verbatim>\<open>Warning: Missing some GTFS files in {directory}\<close>\<close>
  | Error_missing_required py_error
      \<comment> \<open>\<^verbatim>\<open>Error: Missing required file {e} in GTFS data\<close>\<close>
  | Error_stops_not_found
      \<comment> \<open>\<^verbatim>\<open>Error: 'stops.txt' not found in GTFS data\<close>\<close>
  | Error_lat_lon_missing
      \<comment> \<open>\<^verbatim>\<open>Error: 'stop_lat' or 'stop_lon' missing in stops.txt\<close>\<close>
  | Error_missing_trips_or_stop_times
      \<comment> \<open>\<^verbatim>\<open>Error: Missing 'trips.txt' or 'stop_times.txt'. Cannot plot routes.\<close>\<close>
  | Skipping_trip 'k
      \<comment> \<open>\<^verbatim>\<open>Skipping trip {trip_id}: No valid coordinates found.\<close>\<close>
  | Processing string
      \<comment> \<open>\<^verbatim>\<open>Processing GTFS feed in directory {directory}...\<close>\<close>
  | Skipping_directory string
      \<comment> \<open>\<^verbatim>\<open>Skipping {directory} due to missing files.\<close>\<close>
  | Map_saved string
      \<comment> \<open>\<^verbatim>\<open>Map saved as '{map_filename}'.\<close>\<close>
  | Failed_to_generate string
      \<comment> \<open>\<^verbatim>\<open>Failed to generate map for {directory}.\<close>\<close>

subsection \<open>The pandas operations the program uses\<close>

text \<open>\<^verbatim>\<open>d[key]\<close> on a dictionary: raises \<^verbatim>\<open>KeyError(key)\<close> when the key is absent.\<close>

definition getitem :: "string \<Rightarrow> 'a option \<Rightarrow> py_error + 'a" where
  "getitem key entry = (case entry of None \<Rightarrow> Inl (KeyError key) | Some v \<Rightarrow> Inr v)"

text \<open>
  \<^verbatim>\<open>pd.merge(left, right, on=key, how='left')\<close>: the rows of \<open>left\<close> in their order; a
  left row is paired with every right row of the same key, in the order of \<open>right\<close>, and
  with nulls (\<open>None\<close>) when no right row has its key.
\<close>

definition merge_left ::
  "('a \<Rightarrow> 'key) \<Rightarrow> ('b \<Rightarrow> 'key) \<Rightarrow> ('a \<Rightarrow> 'b option \<Rightarrow> 'c) \<Rightarrow> 'a list \<Rightarrow> 'b list \<Rightarrow> 'c list" where
  "merge_left lkey rkey row left right =
     concat (map (\<lambda>l. case filter (\<lambda>r. rkey r = lkey l) right of
                         [] \<Rightarrow> [row l None]
                       | ms \<Rightarrow> map (\<lambda>r. row l (Some r)) ms) left)"

text \<open>
  \<^verbatim>\<open>df.sort_values(by=['trip_id', 'stop_sequence'])\<close>: ascending in the first column,
  then in the second; rows that agree on both keep their order.
\<close>

definition sort_values :: "('a \<Rightarrow> 'k::linorder) \<Rightarrow> ('a \<Rightarrow> int) \<Rightarrow> 'a list \<Rightarrow> 'a list" where
  "sort_values by1 by2 df = sort_key (\<lambda>r. (by1 r, by2 r)) df"

text \<open>
  \<^verbatim>\<open>df.groupby('trip_id')\<close>, iterated: one pair (key, group) per distinct key, in
  ascending key order; a group holds the rows of that key in the order of \<open>df\<close>.
\<close>

definition groupby :: "('a \<Rightarrow> 'k::linorder) \<Rightarrow> 'a list \<Rightarrow> ('k \<times> 'a list) list" where
  "groupby key df =
     map (\<lambda>k. (k, filter (\<lambda>r. key r = k) df)) (sort (remdups (map key df)))"

subsection \<open>\<^verbatim>\<open>collections.Counter\<close>\<close>

text \<open>
  A Counter is a dictionary from keys to counts; like every Python dictionary it keeps
  its keys in insertion order, so it is an association list with distinct keys.
  \<^verbatim>\<open>c[k] += 1\<close> adds one to the count of a key that is present and appends
  \<open>(k, 1)\<close> for a new key (a missing key reads as 0).
\<close>

type_synonym 'a counter = "('a \<times> nat) list"

definition counter_incr :: "'a \<Rightarrow> 'a counter \<Rightarrow> 'a counter" where
  "counter_incr k c =
     (if k \<in> fst ` set c
      then map (\<lambda>(k', n). if k' = k then (k', n + 1) else (k', n)) c
      else c @ [(k, 1)])"

subsection \<open>\<^verbatim>\<open>extract_segments\<close>\<close>

record ('k, 's, 'r) trip_stop_row =
  tsr_trip_id :: 'k
  tsr_stop_sequence :: int
  tsr_stop_id :: 's
  tsr_route_id :: "'r option"

text \<open>The row of the merge of line 41, restricted to the four columns of line 42.\<close>

definition join_trip ::
  "('k, 's) stop_time \<Rightarrow> ('k, 'r) trip option \<Rightarrow> ('k, 's, 'r) trip_stop_row" where
  "join_trip st t =
     \<lparr>tsr_trip_id = st_trip_id st, tsr_stop_sequence = st_stop_sequence st,
      tsr_stop_id = st_stop_id st,
      tsr_route_id = (case t of None \<Rightarrow> None | Some t' \<Rightarrow> route_id t')\<rparr>"

text \<open>Line 41: the left join of \<^verbatim>\<open>stop_times\<close> with the trips' \<^verbatim>\<open>trip_id, route_id\<close>.\<close>

definition merged_trip_stop_times ::
  "('k, 'r) trip list \<Rightarrow> ('k, 's) stop_time list \<Rightarrow> ('k, 's, 'r) trip_stop_row list" where
  "merged_trip_stop_times trips stop_times =
     merge_left st_trip_id trip_id join_trip stop_times trips"

text \<open>Line 42: the joined table, sorted.\<close>

definition trip_stop_times ::
  "('k::linorder, 'r) trip list \<Rightarrow> ('k, 's) stop_time list \<Rightarrow> ('k, 's, 'r) trip_stop_row list" where
  "trip_stop_times trips stop_times =
     sort_values tsr_trip_id tsr_stop_sequence (merged_trip_stop_times trips stop_times)"

text \<open>
  Lines 46 and 47: the loop's sequence of groups, each with
  \<^verbatim>\<open>stops = tuple(group['stop_id'])\<close>.
\<close>

definition trip_segments ::
  "('k::linorder, 'r) trip list \<Rightarrow> ('k, 's) stop_time list \<Rightarrow> ('k \<times> 's list) list" where
  "trip_segments trips stop_times =
     map (\<lambda>(k, grp). (k, map tsr_stop_id grp))
       (groupby tsr_trip_id (trip_stop_times trips stop_times))"

text \<open>
  The whole function. The three dictionary reads sit in the \<^verbatim>\<open>try\<close> block; the handler
  catches \<^verbatim>\<open>KeyError\<close> only, prints and returns the empty Counter. The result is the
  printed lines and the Counter, or an exception that escapes.
\<close>

definition extract_segments ::
  "('k::linorder, 's, 'r) gtfs_files \<Rightarrow> py_error + ('k message list \<times> 's list counter)" where
  "extract_segments gtfs =
     (case (case getitem ''trips.txt'' (trips_txt gtfs) of
              Inl e \<Rightarrow> Inl e
            | Inr trips \<Rightarrow>
                (case getitem ''stop_times.txt'' (stop_times_txt gtfs) of
                   Inl e \<Rightarrow> Inl e
                 | Inr stop_times \<Rightarrow>
                     (case getitem ''routes.txt'' (routes_txt gtfs) of
                        Inl e \<Rightarrow> Inl e
                      | Inr routes \<Rightarrow> Inr (trips, stop_times, routes)))) of
        Inl (KeyError k) \<Rightarrow> Inr ([Error_missing_required (KeyError k)], [])
      | Inl e \<Rightarrow> Inl e
      | Inr (trips, stop_times, routes) \<Rightarrow>
          Inr ([], fold (\<lambda>(k, stops) segments. counter_incr stops segments)
                     (trip_segments trips stop_times) []))"

text \<open>A dictionary that holds the three tables \<^verbatim>\<open>extract_segments\<close> reads.\<close>

abbreviation loaded ::
  "('k, 'r) trip list \<Rightarrow> ('k, 's) stop_time list \<Rightarrow> 'r route list \<Rightarrow> 's stops_table option
     \<Rightarrow> ('k, 's, 'r) gtfs_files" where
  "loaded trips stop_times routes stops \<equiv>
     \<lparr>trips_txt = Some trips, stop_times_txt = Some stop_times, routes_txt = Some routes,
      stops_txt = stops\<rparr>"

subsection \<open>\<^verbatim>\<open>plot_routes_on_map\<close>\<close>

record ('k, 's, 'r) plot_row =
  pr_trip_id :: 'k
  pr_stop_sequence :: int
  pr_stop_id :: 's
  pr_stop_lat :: "real option"
  pr_stop_lon :: "real option"
  pr_route_id :: "'r option"

text \<open>
  The float64 number that \<^verbatim>\<open>Series.mean()\<close> returns for a column whose values that are
  not null are the given ones, in order. Which number that is depends on the rounding
  and the order of summation of the library, which are not modelled.
\<close>

datatype float64_mean = Mean "real list"

text \<open>The keyword arguments of \<^verbatim>\<open>folium.PolyLine\<close>; the two numbers are kept as written.\<close>

record polyline =
  locations :: "(real \<times> real) list"
  color :: string
  weight :: string
  opacity :: string

record map_obj =
  location :: "float64_mean \<times> float64_mean"
  zoom_start :: nat
  polylines :: "polyline list"

text \<open>Line 74: a stop_times row with the coordinates of a stop of the same \<^verbatim>\<open>stop_id\<close>.\<close>

definition join_stop ::
  "('k, 's) stop_time \<Rightarrow> 's stop option \<Rightarrow> ('k, 's) stop_time \<times> real option \<times> real option" where
  "join_stop st s =
     (st, case s of None \<Rightarrow> (None, None) | Some s' \<Rightarrow> (stop_lat s', stop_lon s'))"

text \<open>Line 75, restricted to the six columns of line 78.\<close>

definition join_trip_plot ::
  "('k, 's) stop_time \<times> real option \<times> real option \<Rightarrow> ('k, 'r) trip option \<Rightarrow> ('k, 's, 'r) plot_row" where
  "join_trip_plot x t =
     (case x of (st, lat, lon) \<Rightarrow>
        \<lparr>pr_trip_id = st_trip_id st, pr_stop_sequence = st_stop_sequence st,
         pr_stop_id = st_stop_id st, pr_stop_lat = lat, pr_stop_lon = lon,
         pr_route_id = (case t of None \<Rightarrow> None | Some t' \<Rightarrow> route_id t')\<rparr>)"

definition merged_plot_rows ::
  "'s stop list \<Rightarrow> ('k, 'r) trip list \<Rightarrow> ('k, 's) stop_time list \<Rightarrow> ('k, 's, 'r) plot_row list" where
  "merged_plot_rows stops trips stop_times =
     merge_left (\<lambda>x. st_trip_id (fst x)) trip_id join_trip_plot
       (merge_left st_stop_id s_stop_id join_stop stop_times stops) trips"

text \<open>Line 78: the joined table, sorted.\<close>

definition plot_trip_stop_times ::
  "'s stop list \<Rightarrow> ('k::linorder, 'r) trip list \<Rightarrow> ('k, 's) stop_time list \<Rightarrow> ('k, 's, 'r) plot_row list" where
  "plot_trip_stop_times stops trips stop_times =
     sort_values pr_trip_id pr_stop_sequence (merged_plot_rows stops trips stop_times)"

text \<open>The values of a column that are not null (\<^verbatim>\<open>skipna\<close>, \<^verbatim>\<open>dropna\<close>).\<close>

definition dropna :: "'a option list \<Rightarrow> 'a list" where
  "dropna col = concat (map (\<lambda>v. case v of None \<Rightarrow> [] | Some x \<Rightarrow> [x]) col)"

text \<open>
  \<^verbatim>\<open>Series.mean()\<close>: the float64 mean of the values that are not null; NaN (\<open>None\<close>)
  when there is none.
\<close>

definition mean :: "real option list \<Rightarrow> float64_mean option" where
  "mean col =
     (let xs = dropna col
      in if xs = [] then None else Some (Mean xs))"

text \<open>\<^verbatim>\<open>group[['stop_lat', 'stop_lon']].dropna().values.tolist()\<close>\<close>

definition coordinates_of :: "('k, 's, 'r) plot_row list \<Rightarrow> (real \<times> real) list" where
  "coordinates_of grp =
     concat (map (\<lambda>r. case (pr_stop_lat r, pr_stop_lon r) of
                         (Some la, Some lo) \<Rightarrow> [(la, lo)]
                       | _ \<Rightarrow> []) grp)"

text \<open>One iteration of the loop of lines 85 to 95, on the printed lines and the map.\<close>

definition draw_trip ::
  "'k \<times> ('k, 's, 'r) plot_row list \<Rightarrow> 'k message list \<times> map_obj \<Rightarrow> 'k message list \<times> map_obj" where
  "draw_trip g acc =
     (case g of (k, grp) \<Rightarrow>
      case acc of (out, m) \<Rightarrow>
        (let coordinates = coordinates_of grp in
         if coordinates = [] then (out @ [Skipping_trip k], m)
         else (out, m\<lparr>polylines := polylines m @
                 [\<lparr>locations = coordinates, color = ''blue'', weight = ''2.5'', opacity = ''0.8''\<rparr>]\<rparr>)))"

text \<open>
  The function returns the printed lines and the map, \<open>None\<close> for Python's
  \<^verbatim>\<open>None\<close>. Two library calls can raise: selecting the column \<^verbatim>\<open>stop_id\<close> of a stops
  table that has none (line 74), and \<^verbatim>\<open>folium.Map\<close>, which refuses a location that
  contains NaN (line 82).
\<close>

definition plot_routes_on_map ::
  "('k::linorder, 's, 'r) gtfs_files \<Rightarrow> py_error + ('k message list \<times> map_obj option)" where
  "plot_routes_on_map gtfs =
     (case stops_txt gtfs of
        None \<Rightarrow> Inr ([Error_stops_not_found], None)
      | Some stops_df \<Rightarrow>
          if ''stop_lat'' \<notin> set (stops_columns stops_df) \<or> ''stop_lon'' \<notin> set (stops_columns stops_df)
          then Inr ([Error_lat_lon_missing], None)
          else if trips_txt gtfs = None \<or> stop_times_txt gtfs = None
          then Inr ([Error_missing_trips_or_stop_times], None)
          else
            (case (trips_txt gtfs, stop_times_txt gtfs) of
               (Some trips_df, Some stop_times_df) \<Rightarrow>
                 if ''stop_id'' \<notin> set (stops_columns stops_df)
                 then Inl (KeyError ''['stop_id'] not in index'')
                 else
                   (let tst = plot_trip_stop_times (stops_rows stops_df) trips_df stop_times_df in
                    case (mean (map stop_lat (stops_rows stops_df)),
                          mean (map stop_lon (stops_rows stops_df))) of
                      (Some la, Some lo) \<Rightarrow>
                        (case fold draw_trip (groupby pr_trip_id tst)
                                ([], \<lparr>location = (la, lo), zoom_start = 12, polylines = []\<rparr>) of
                           (out, m) \<Rightarrow> Inr (out, Some m))
                    | _ \<Rightarrow> Inl (ValueError ''Location values cannot contain NaNs.''))
             | _ \<Rightarrow> Inr ([Error_missing_trips_or_stop_times], None)))"

subsection \<open>\<^verbatim>\<open>load_gtfs_from_directory\<close>\<close>

text \<open>
  What the loader finds at one path: no file, a file on which \<^verbatim>\<open>pd.read_csv\<close> raises
  (with the exception's text), or a file it parses into a table (malformed lines already
  skipped by \<^verbatim>\<open>on_bad_lines='skip'\<close>).
\<close>

datatype 'a csv_file = Absent | Unreadable string | Parsed 'a

record ('k, 's, 'r) feed_directory =
  trips_file :: "('k, 'r) trip list csv_file"
  stop_times_file :: "('k, 's) stop_time list csv_file"
  routes_file :: "'r route list csv_file"
  stops_file :: "'s stops_table csv_file"

type_synonym ('k, 's, 'r) file_system = "string \<Rightarrow> ('k, 's, 'r) feed_directory"

text \<open>One iteration of the loop of lines 14 to 22: the printed lines and the dictionary entry.\<close>

definition load_file :: "string \<Rightarrow> string \<Rightarrow> 'a csv_file \<Rightarrow> 'k message list \<times> 'a option" where
  "load_file directory file_name f =
     (case f of
        Absent \<Rightarrow> ([Warning_not_found file_name directory], None)
      | Unreadable e \<Rightarrow> ([Error_loading file_name directory e], None)
      | Parsed df \<Rightarrow> ([], Some df))"

text \<open>\<^verbatim>\<open>len(files)\<close>\<close>

definition len_files :: "('k, 's, 'r) gtfs_files \<Rightarrow> nat" where
  "len_files gtfs =
     (if trips_txt gtfs = None then 0 else 1) + (if stop_times_txt gtfs = None then 0 else 1)
     + (if routes_txt gtfs = None then 0 else 1) + (if stops_txt gtfs = None then 0 else 1)"

definition required_files :: "string list" where
  "required_files = [''trips.txt'', ''stop_times.txt'', ''routes.txt'', ''stops.txt'']"

definition load_gtfs_from_directory ::
  "('k, 's, 'r) file_system \<Rightarrow> string \<Rightarrow> 'k message list \<times> ('k, 's, 'r) gtfs_files" where
  "load_gtfs_from_directory fs directory =
     (let d = fs directory;
          (out1, trips) = load_file directory ''trips.txt'' (trips_file d);
          (out2, stop_times) = load_file directory ''stop_times.txt'' (stop_times_file d);
          (out3, routes) = load_file directory ''routes.txt'' (routes_file d);
          (out4, stops) = load_file directory ''stops.txt'' (stops_file d);
          files = \<lparr>trips_txt = trips, stop_times_txt = stop_times, routes_txt = routes,
                   stops_txt = stops\<rparr>
      in (out1 @ out2 @ out3 @ out4 @
            (if len_files files \<noteq> length required_files then [Warning_missing_some directory] else []),
          files))"

subsection \<open>\<^verbatim>\<open>analyze_gtfs_feeds\<close>\<close>

text \<open>
  The state the orchestrator acts on: the lines printed so far and the files written by
  \<^verbatim>\<open>map_obj.save\<close>, in order.
\<close>

record 'k world =
  stdout :: "'k message list"
  saved :: "(string \<times> map_obj) list"

text \<open>\<^verbatim>\<open>os.path.basename\<close>: what follows the last slash.\<close>

definition basename :: "string \<Rightarrow> string" where
  "basename p = rev (takeWhile (\<lambda>c. c \<noteq> CHR ''/'') (rev p))"

definition map_filename :: "string \<Rightarrow> string" where
  "map_filename directory = ''routes_map_'' @ basename directory @ ''.html''"

text \<open>
  The loop over the directories. The function has no handler, so an exception raised for
  one directory ends the loop: the result is the exception, if any, and the state reached.
\<close>

fun analyze_gtfs_feeds ::
  "('k::linorder, 's, 'r) file_system \<Rightarrow> string list \<Rightarrow> 'k world \<Rightarrow> py_error option \<times> 'k world" where
  "analyze_gtfs_feeds fs [] w = (None, w)"
| "analyze_gtfs_feeds fs (directory # rest) w =
     (case load_gtfs_from_directory fs directory of (out, gtfs_data) \<Rightarrow>
      let w1 = w\<lparr>stdout := stdout w @ [Processing directory] @ out\<rparr> in
      if len_files gtfs_data = 0
      then analyze_gtfs_feeds fs rest (w1\<lparr>stdout := stdout w1 @ [Skipping_directory directory]\<rparr>)
      else
        (case plot_routes_on_map gtfs_data of
           Inl e \<Rightarrow> (Some e, w1)
         | Inr (out', None) \<Rightarrow>
             analyze_gtfs_feeds fs rest
               (w1\<lparr>stdout := stdout w1 @ out' @ [Failed_to_generate directory]\<rparr>)
         | Inr (out', Some map_obj) \<Rightarrow>
             analyze_gtfs_feeds fs rest
               (w1\<lparr>stdout := stdout w1 @ out' @ [Map_saved (map_filename directory)],
                   saved := saved w1 @ [(map_filename directory, map_obj)]\<rparr>)))"

section \<open>Properties\<close>

subsection \<open>Joins, sorting and grouping\<close>

lemma merge_left_Nil: "merge_left lkey rkey row [] right = []"
  by (simp add: merge_left_def)

lemma merge_left_Cons:
  "merge_left lkey rkey row (l # left) right =
     (case filter (\<lambda>r. rkey r = lkey l) right of
        [] \<Rightarrow> [row l None]
      | ms \<Rightarrow> map (\<lambda>r. row l (Some r)) ms) @ merge_left lkey rkey row left right"
  by (simp add: merge_left_def)

lemma merge_left_append:
  "merge_left lkey rkey row (xs @ ys) right =
     merge_left lkey rkey row xs right @ merge_left lkey rkey row ys right"
  by (simp add: merge_left_def)

lemma filter_merge_left:
  assumes key: "\<And>l r. key (row l r) = lkey l"
  shows "filter (\<lambda>c. key c = k) (merge_left lkey rkey row left right) =
         merge_left lkey rkey row (filter (\<lambda>l. lkey l = k) left) right"
proof (induction left)
  case Nil
  show ?case by (simp add: merge_left_Nil)
next
  case (Cons l left)
  let ?one = "case filter (\<lambda>r. rkey r = lkey l) right of
                [] \<Rightarrow> [row l None] | ms \<Rightarrow> map (\<lambda>r. row l (Some r)) ms"
  have all: "\<forall>c\<in>set ?one. key c = lkey l"
    by (auto simp: key split: list.split)
  have "filter (\<lambda>c. key c = k) ?one = (if lkey l = k then ?one else [])"
  proof (cases "lkey l = k")
    case True
    with all have "\<forall>c\<in>set ?one. key c = k" by simp
    then have "filter (\<lambda>c. key c = k) ?one = ?one" by (simp only: filter_True)
    with True show ?thesis by simp
  next
    case False
    with all have "\<forall>c\<in>set ?one. key c \<noteq> k" by simp
    then have "filter (\<lambda>c. key c = k) ?one = []" by (simp only: filter_False)
    with False show ?thesis by simp
  qed
  then show ?case
    using Cons.IH by (simp add: merge_left_Cons)
qed

lemma key_set_merge_left:
  assumes key: "\<And>l r. key (row l r) = lkey l"
  shows "key ` set (merge_left lkey rkey row left right) = lkey ` set left"
proof (induction left)
  case Nil
  show ?case by (simp add: merge_left_Nil)
next
  case (Cons l left)
  let ?one = "case filter (\<lambda>r. rkey r = lkey l) right of
                [] \<Rightarrow> [row l None] | ms \<Rightarrow> map (\<lambda>r. row l (Some r)) ms"
  have "key ` set ?one = {lkey l}"
    by (auto simp: key split: list.split)
  then show ?case
    using Cons.IH by (simp add: merge_left_Cons image_Un)
qed

lemma filter_key_distinct:
  "distinct (map rkey right) \<Longrightarrow>
   filter (\<lambda>r. rkey r = k) right = (case find (\<lambda>r. rkey r = k) right of None \<Rightarrow> [] | Some r \<Rightarrow> [r])"
proof (induction right)
  case Nil
  show ?case by simp
next
  case (Cons r right)
  show ?case
  proof (cases "rkey r = k")
    case True
    with Cons.prems have "\<forall>x\<in>set right. rkey x \<noteq> k" by (auto simp: image_iff)
    then have "filter (\<lambda>r. rkey r = k) right = []" by (simp only: filter_False)
    with True show ?thesis by simp
  next
    case False
    with Cons show ?thesis by simp
  qed
qed

lemma merge_left_distinct:
  assumes "distinct (map rkey right)"
  shows "merge_left lkey rkey row left right =
         map (\<lambda>l. row l (find (\<lambda>r. rkey r = lkey l) right)) left"
proof (induction left)
  case Nil
  show ?case by (simp add: merge_left_Nil)
next
  case (Cons l left)
  show ?case
    by (simp add: merge_left_Cons Cons.IH filter_key_distinct[OF assms] split: option.split)
qed

lemma insort_key_cong_on:
  assumes "\<forall>y\<in>set xs. (f x \<le> f y) = (g x \<le> g y)"
  shows "insort_key f x xs = insort_key g x xs"
  using assms by (induction xs) auto

lemma sort_key_cong_on:
  assumes "\<forall>x\<in>set xs. \<forall>y\<in>set xs. (f x \<le> f y) = (g x \<le> g y)"
  shows "sort_key f xs = sort_key g xs"
  using assms
proof (induction xs)
  case Nil
  show ?case by simp
next
  case (Cons x xs)
  then have "sort_key f xs = sort_key g xs" by simp
  moreover have "insort_key f x (sort_key g xs) = insort_key g x (sort_key g xs)"
    using Cons.prems by (intro insort_key_cong_on) simp
  ultimately show ?case by simp
qed

lemma insort_key_map:
  "insort_key f (g x) (map g xs) = map g (insort_key (\<lambda>y. f (g y)) x xs)"
  by (induction xs) auto

lemma sort_key_map:
  "sort_key f (map g xs) = map g (sort_key (\<lambda>y. f (g y)) xs)"
  by (induction xs) (simp_all add: insort_key_map)

lemma filter_sort_values:
  "filter (\<lambda>r. by1 r = k) (sort_values by1 by2 df) = sort_key by2 (filter (\<lambda>r. by1 r = k) df)"
proof -
  have "filter (\<lambda>r. by1 r = k) (sort_values by1 by2 df) =
        sort_key (\<lambda>r. (by1 r, by2 r)) (filter (\<lambda>r. by1 r = k) df)"
    by (simp add: sort_values_def filter_sort)
  also have "\<dots> = sort_key by2 (filter (\<lambda>r. by1 r = k) df)"
    by (rule sort_key_cong_on) auto
  finally show ?thesis .
qed

lemma groupby_keys:
  "map fst (groupby key df) = sorted_list_of_set (key ` set df)"
  by (simp add: groupby_def comp_def sorted_list_of_set_sort_remdups flip: set_map)

lemma groupby_eq:
  "groupby key df = map (\<lambda>k. (k, filter (\<lambda>r. key r = k) df)) (sorted_list_of_set (key ` set df))"
  by (simp add: groupby_def sorted_list_of_set_sort_remdups flip: set_map)

subsection \<open>Counters\<close>

lemma map_fst_incr:
  "map (\<lambda>e. fst (case e of (k', n) \<Rightarrow> if k' = k then (k', n + 1) else (k', n))) c = map fst c"
  by (rule map_cong) (auto split: prod.split)

lemma keys_counter_incr: "fst ` set (counter_incr k c) = insert k (fst ` set c)"
proof (cases "k \<in> fst ` set c")
  case True
  have "fst ` set (map (\<lambda>(k', n). if k' = k then (k', n + 1) else (k', n)) c) = set (map fst c)"
    unfolding set_map [symmetric] map_map comp_def map_fst_incr ..
  with True show ?thesis by (simp add: counter_incr_def insert_absorb)
next
  case False
  then show ?thesis by (simp add: counter_incr_def)
qed

lemma distinct_counter_incr:
  "distinct (map fst c) \<Longrightarrow> distinct (map fst (counter_incr k c))"
  by (simp add: counter_incr_def comp_def map_fst_incr)

lemma map_of_incr:
  fixes c :: "'a counter"
  shows "map_of (map (\<lambda>(k', n). if k' = k then (k', n + 1) else (k', n)) c) s =
     (if s = k then map_option (\<lambda>n. n + 1) (map_of c k) else map_of c s)"
proof (induction c)
  case Nil
  show ?case by simp
next
  case (Cons e c)
  obtain k' n where e: "e = (k', n)" by (cases e)
  show ?case using Cons.IH by (cases "s = k") (simp_all add: e)
qed

lemma map_of_counter_incr:
  fixes c :: "'a counter"
  shows "map_of (counter_incr k c) s =
     (if s = k then Some (case map_of c k of None \<Rightarrow> 1 | Some n \<Rightarrow> n + 1) else map_of c s)"
proof (cases "k \<in> fst ` set c")
  case False
  then have "map_of c k = None" by (simp add: map_of_eq_None_iff)
  with False show ?thesis by (simp add: counter_incr_def map_add_def split: option.split)
next
  case True
  then have "map_of c k \<noteq> None" by (simp add: map_of_eq_None_iff)
  then obtain n where "map_of c k = Some n" by blast
  with True show ?thesis by (simp add: counter_incr_def map_of_incr)
qed

lemma incr_absent:
  "k \<notin> fst ` set c \<Longrightarrow> map (\<lambda>(k', n). if k' = k then (k', n + 1) else (k', n)) c = c"
  by (rule map_idI) (force split: prod.split)

lemma sum_incr:
  fixes c :: "'a counter"
  shows "distinct (map fst c) \<Longrightarrow> k \<in> fst ` set c \<Longrightarrow>
   sum_list (map snd (map (\<lambda>(k', n). if k' = k then (k', n + 1) else (k', n)) c)) =
   sum_list (map snd c) + 1"
proof (induction c)
  case Nil
  then show ?case by simp
next
  case (Cons e c)
  obtain k' n where e: "e = (k', n)" by (cases e)
  show ?case
  proof (cases "k' = k")
    case True
    with Cons.prems have "k \<notin> fst ` set c" by (simp add: e)
    then have "map (\<lambda>(k', n). if k' = k then (k', n + 1) else (k', n)) c = c"
      by (rule incr_absent)
    then show ?thesis using True by (simp add: e del: map_map)
  next
    case False
    with Cons.prems have "k \<in> fst ` set c" "distinct (map fst c)" by (auto simp: e)
    then have "sum_list (map snd (map (\<lambda>(k', n). if k' = k then (k', n + 1) else (k', n)) c)) =
               sum_list (map snd c) + 1"
      by (rule Cons.IH[rotated])
    then show ?thesis using False by (simp add: e del: map_map)
  qed
qed

lemma sum_counter_incr:
  fixes c :: "'a counter"
  assumes "distinct (map fst c)"
  shows "sum_list (map snd (counter_incr k c)) = sum_list (map snd c) + 1"
proof (cases "k \<in> fst ` set c")
  case True
  with assms show ?thesis unfolding counter_incr_def by (simp only: if_True sum_incr)
next
  case False
  then show ?thesis by (simp add: counter_incr_def)
qed

lemma distinct_fold_counter:
  "distinct (map fst c) \<Longrightarrow> distinct (map fst (fold counter_incr ks c))"
  by (induction ks arbitrary: c) (simp_all add: distinct_counter_incr)

lemma keys_fold_counter:
  "fst ` set (fold counter_incr ks c) = set ks \<union> fst ` set c"
  by (induction ks arbitrary: c) (auto simp: keys_counter_incr)

lemma sum_fold_counter:
  fixes c :: "'a counter"
  shows "distinct (map fst c) \<Longrightarrow>
   sum_list (map snd (fold counter_incr ks c)) = sum_list (map snd c) + length ks"
  by (induction ks arbitrary: c) (simp_all add: distinct_counter_incr sum_counter_incr)

lemma map_of_fold_counter:
  fixes c :: "'a counter"
  shows "map_of (fold counter_incr ks c) s =
     (if s \<in> set ks
      then Some ((case map_of c s of None \<Rightarrow> 0 | Some n \<Rightarrow> n) + count_list ks s)
      else map_of c s)"
proof (induction ks arbitrary: c)
  case Nil
  show ?case by simp
next
  case (Cons k ks)
  show ?case
  proof (cases "s = k")
    case True
    then have k: "k = s" by simp
    show ?thesis unfolding k by (simp add: Cons.IH map_of_counter_incr split: option.split)
  next
    case False
    then show ?thesis by (simp add: Cons.IH map_of_counter_incr)
  qed
qed

subsection \<open>The groups of \<^verbatim>\<open>extract_segments\<close>\<close>

lemma fold_segments:
  "fold (\<lambda>(k, stops) segments. counter_incr stops segments) ps c =
   fold counter_incr (map snd ps) c"
  by (induction ps arbitrary: c) (simp_all add: case_prod_beta)

lemma trip_segments_eq:
  "trip_segments trips stop_times =
     map (\<lambda>k. (k, map tsr_stop_id (sort_key tsr_stop_sequence
                 (merged_trip_stop_times trips (filter (\<lambda>r. st_trip_id r = k) stop_times)))))
       (sorted_list_of_set (st_trip_id ` set stop_times))"
proof -
  have key: "\<And>l r. tsr_trip_id (join_trip l r) = st_trip_id l"
    by (simp add: join_trip_def)
  have keys: "tsr_trip_id ` set (trip_stop_times trips stop_times) = st_trip_id ` set stop_times"
    unfolding trip_stop_times_def sort_values_def merged_trip_stop_times_def
    by (simp add: key_set_merge_left[where key = tsr_trip_id, OF key])
  have grp: "filter (\<lambda>r. tsr_trip_id r = k) (trip_stop_times trips stop_times) =
             sort_key tsr_stop_sequence
               (merged_trip_stop_times trips (filter (\<lambda>r. st_trip_id r = k) stop_times))" for k
    unfolding trip_stop_times_def merged_trip_stop_times_def
    by (simp add: filter_sort_values filter_merge_left[where key = tsr_trip_id, OF key])
  show ?thesis
    by (simp add: trip_segments_def groupby_eq keys grp)
qed

lemma merged_distinct_trips:
  assumes "distinct (map trip_id trips)"
  shows "map tsr_stop_id (sort_key tsr_stop_sequence (merged_trip_stop_times trips sts)) =
         map st_stop_id (sort_key st_stop_sequence sts)"
proof -
  let ?g = "\<lambda>l. join_trip l (find (\<lambda>r. trip_id r = st_trip_id l) trips)"
  have "merged_trip_stop_times trips sts = map ?g sts"
    unfolding merged_trip_stop_times_def by (rule merge_left_distinct[OF assms])
  then have "sort_key tsr_stop_sequence (merged_trip_stop_times trips sts) =
             map ?g (sort_key st_stop_sequence sts)"
    by (simp add: sort_key_map join_trip_def)
  then show ?thesis by (simp add: join_trip_def comp_def)
qed

lemma extract_segments_loaded:
  "extract_segments (loaded trips stop_times routes stops) =
     Inr ([], fold counter_incr (map snd (trip_segments trips stop_times)) [])"
  by (simp add: extract_segments_def getitem_def fold_segments)

lemma length_trip_segments:
  "length (trip_segments trips stop_times) = card (st_trip_id ` set stop_times)"
  by (simp add: trip_segments_eq)

section \<open>The claims\<close>

text \<open>
  C10. For every table set that holds trips, stop_times and routes, \<^verbatim>\<open>extract_segments\<close>
  prints nothing and returns a Counter whose counts add up to the number of distinct
  \<^verbatim>\<open>trip_id\<close> values of the stop_times table.
\<close>

theorem segment_counts_total:
  "\<exists>c. extract_segments (loaded trips stop_times routes stops) = Inr ([], c) \<and>
       sum_list (map snd c) = card (st_trip_id ` set stop_times)"
  by (simp add: extract_segments_loaded sum_fold_counter length_trip_segments)

text \<open>The definitions that evaluate \<^verbatim>\<open>extract_segments\<close> on a concrete input.\<close>

lemmas run_extract =
  extract_segments_def getitem_def trip_segments_def groupby_def trip_stop_times_def
  sort_values_def merged_trip_stop_times_def merge_left_def join_trip_def counter_incr_def

text \<open>
  Three trips, two of them with the stops A, B and one with the stop A alone: the counts
  2 and 1 add up to the three trip ids.
\<close>

theorem segment_counts_total_witness:
  "extract_segments (loaded
      [\<lparr>trip_id = 1::nat, route_id = Some ''R1''\<rparr>, \<lparr>trip_id = 2, route_id = Some ''R2''\<rparr>,
       \<lparr>trip_id = 3, route_id = None\<rparr>]
      [\<lparr>st_trip_id = 2, st_stop_sequence = 1, st_stop_id = ''A''\<rparr>,
       \<lparr>st_trip_id = 1, st_stop_sequence = 2, st_stop_id = ''B''\<rparr>,
       \<lparr>st_trip_id = 3, st_stop_sequence = 1, st_stop_id = ''A''\<rparr>,
       \<lparr>st_trip_id = 1, st_stop_sequence = 1, st_stop_id = ''A''\<rparr>,
       \<lparr>st_trip_id = 2, st_stop_sequence = 2, st_stop_id = ''B''\<rparr>]
      [\<lparr>r_route_id = ''R1''\<rparr>] None)
   = Inr ([], [([''A'', ''B''], 2), ([''A''], 1)]) \<and>
   card (st_trip_id ` set
      [\<lparr>st_trip_id = 2::nat, st_stop_sequence = 1, st_stop_id = ''A''\<rparr>,
       \<lparr>st_trip_id = 1, st_stop_sequence = 2, st_stop_id = ''B''\<rparr>,
       \<lparr>st_trip_id = 3, st_stop_sequence = 1, st_stop_id = ''A''\<rparr>,
       \<lparr>st_trip_id = 1, st_stop_sequence = 1, st_stop_id = ''A''\<rparr>,
       \<lparr>st_trip_id = 2, st_stop_sequence = 2, st_stop_id = ''B''\<rparr>]) = 3"
  using segment_counts_total [of
      "[\<lparr>trip_id = 1::nat, route_id = Some ''R1''\<rparr>, \<lparr>trip_id = 2, route_id = Some ''R2''\<rparr>,
       \<lparr>trip_id = 3, route_id = None\<rparr>]"
      "[\<lparr>st_trip_id = 2, st_stop_sequence = 1, st_stop_id = ''A''\<rparr>,
       \<lparr>st_trip_id = 1, st_stop_sequence = 2, st_stop_id = ''B''\<rparr>,
       \<lparr>st_trip_id = 3, st_stop_sequence = 1, st_stop_id = ''A''\<rparr>,
       \<lparr>st_trip_id = 1, st_stop_sequence = 1, st_stop_id = ''A''\<rparr>,
       \<lparr>st_trip_id = 2, st_stop_sequence = 2, st_stop_id = ''B''\<rparr>]"
      "[\<lparr>r_route_id = ''R1''\<rparr>]" None]
  by (simp add: run_extract)

text \<open>
  C5. When the dictionary lacks trips.txt, stop_times.txt or routes.txt,
  \<^verbatim>\<open>extract_segments\<close> raises nothing: it prints the missing-file line, naming the first
  of the three keys that is absent, and returns the empty Counter.
\<close>

theorem missing_table_empty_counter:
  assumes "trips_txt gtfs = None \<or> stop_times_txt gtfs = None \<or> routes_txt gtfs = None"
  shows "extract_segments gtfs =
           Inr ([Error_missing_required (KeyError
                   (if trips_txt gtfs = None then ''trips.txt''
                    else if stop_times_txt gtfs = None then ''stop_times.txt''
                    else ''routes.txt''))], [])"
  using assms by (auto simp: extract_segments_def getitem_def split: option.split)

text \<open>A dictionary without routes.txt.\<close>

theorem missing_table_empty_counter_witness:
  "extract_segments
     \<lparr>trips_txt = Some [\<lparr>trip_id = 1::nat, route_id = Some ''R1''\<rparr>],
      stop_times_txt = Some [\<lparr>st_trip_id = 1, st_stop_sequence = 1, st_stop_id = ''A''\<rparr>],
      routes_txt = (None :: string route list option), stops_txt = None\<rparr>
   = Inr ([Error_missing_required (KeyError ''routes.txt'')], [])"
proof -
  let ?g = "\<lparr>trips_txt = Some [\<lparr>trip_id = 1::nat, route_id = Some ''R1''\<rparr>],
      stop_times_txt = Some [\<lparr>st_trip_id = 1, st_stop_sequence = 1, st_stop_id = ''A''\<rparr>],
      routes_txt = (None :: string route list option), stops_txt = None\<rparr>"
  have h: "trips_txt ?g = None \<or> stop_times_txt ?g = None \<or> routes_txt ?g = None" by simp
  show ?thesis using missing_table_empty_counter [OF h] by simp
qed

lemma sorted_group_sort_values:
  "sorted (map by2 (filter (\<lambda>r. by1 r = k) (sort_values by1 by2 df)))"
  by (simp add: filter_sort_values)

lemma sort_values_stable:
  "filter (\<lambda>r. by1 r = k \<and> by2 r = q) (sort_values by1 by2 df) =
   filter (\<lambda>r. by1 r = k \<and> by2 r = q) df"
  using sort_key_stable [of "\<lambda>r. (by1 r, by2 r)" "(k, q)" df]
  by (simp add: sort_values_def)

lemma sorted_sort_values:
  "sorted (map (\<lambda>r. (by1 r, by2 r)) (sort_values by1 by2 df))"
  by (simp add: sort_values_def)

text \<open>
  C7. In the joined and sorted table of \<^verbatim>\<open>extract_segments\<close> (line 42) and in that of
  \<^verbatim>\<open>plot_routes_on_map\<close> (line 78), the rows of every trip are in ascending order of
  \<^verbatim>\<open>stop_sequence\<close>, and the rows that share a trip and a stop_sequence are, in the same
  order, the rows of the joined table before sorting.
\<close>

theorem sort_values_per_trip_stable:
  "sorted (map tsr_stop_sequence
     (filter (\<lambda>r. tsr_trip_id r = k) (trip_stop_times trips stop_times))) \<and>
   filter (\<lambda>r. tsr_trip_id r = k \<and> tsr_stop_sequence r = q) (trip_stop_times trips stop_times) =
   filter (\<lambda>r. tsr_trip_id r = k \<and> tsr_stop_sequence r = q)
     (merged_trip_stop_times trips stop_times) \<and>
   sorted (map pr_stop_sequence
     (filter (\<lambda>r. pr_trip_id r = k) (plot_trip_stop_times stops trips stop_times))) \<and>
   filter (\<lambda>r. pr_trip_id r = k \<and> pr_stop_sequence r = q)
     (plot_trip_stop_times stops trips stop_times) =
   filter (\<lambda>r. pr_trip_id r = k \<and> pr_stop_sequence r = q)
     (merged_plot_rows stops trips stop_times)"
  unfolding trip_stop_times_def plot_trip_stop_times_def
  by (simp only: sorted_group_sort_values sort_values_stable simp_thms)

text \<open>
  A trip whose stops X and Z share the stop_sequence 2: X stays before Z.
\<close>

theorem sort_values_per_trip_stable_witness:
  "trip_stop_times [\<lparr>trip_id = 1::nat, route_id = Some ''R''\<rparr>]
     [\<lparr>st_trip_id = 1, st_stop_sequence = 2, st_stop_id = ''X''\<rparr>,
      \<lparr>st_trip_id = 1, st_stop_sequence = 1, st_stop_id = ''Y''\<rparr>,
      \<lparr>st_trip_id = 1, st_stop_sequence = 2, st_stop_id = ''Z''\<rparr>]
   = [\<lparr>tsr_trip_id = 1, tsr_stop_sequence = 1, tsr_stop_id = ''Y'', tsr_route_id = Some ''R''\<rparr>,
      \<lparr>tsr_trip_id = 1, tsr_stop_sequence = 2, tsr_stop_id = ''X'', tsr_route_id = Some ''R''\<rparr>,
      \<lparr>tsr_trip_id = 1, tsr_stop_sequence = 2, tsr_stop_id = ''Z'', tsr_route_id = Some ''R''\<rparr>] \<and>
   filter (\<lambda>r. tsr_trip_id r = 1 \<and> tsr_stop_sequence r = 2)
     (trip_stop_times [\<lparr>trip_id = 1::nat, route_id = Some ''R''\<rparr>]
       [\<lparr>st_trip_id = 1, st_stop_sequence = 2, st_stop_id = ''X''\<rparr>,
        \<lparr>st_trip_id = 1, st_stop_sequence = 1, st_stop_id = ''Y''\<rparr>,
        \<lparr>st_trip_id = 1, st_stop_sequence = 2, st_stop_id = ''Z''\<rparr>])
   = [\<lparr>tsr_trip_id = 1, tsr_stop_sequence = 2, tsr_stop_id = ''X'', tsr_route_id = Some ''R''\<rparr>,
      \<lparr>tsr_trip_id = 1, tsr_stop_sequence = 2, tsr_stop_id = ''Z'', tsr_route_id = Some ''R''\<rparr>]"
  using sort_values_per_trip_stable [of 1
     "[\<lparr>trip_id = 1::nat, route_id = Some ''R''\<rparr>]"
     "[\<lparr>st_trip_id = 1, st_stop_sequence = 2, st_stop_id = ''X''\<rparr>,
       \<lparr>st_trip_id = 1, st_stop_sequence = 1, st_stop_id = ''Y''\<rparr>,
       \<lparr>st_trip_id = 1, st_stop_sequence = 2, st_stop_id = ''Z''\<rparr>]" 2 "[]"]
  by (simp add: trip_stop_times_def sort_values_def merged_trip_stop_times_def merge_left_def
      join_trip_def)

lemma trip_segments_keys:
  "fst ` set (trip_segments trips stop_times) = st_trip_id ` set stop_times"
  by (simp add: trip_segments_eq image_image)

lemma trip_segments_mem:
  "(k, seg) \<in> set (trip_segments trips stop_times) \<longleftrightarrow>
     k \<in> st_trip_id ` set stop_times \<and>
     seg = map tsr_stop_id (sort_key tsr_stop_sequence
             (merged_trip_stop_times trips (filter (\<lambda>r. st_trip_id r = k) stop_times)))"
  by (auto simp: trip_segments_eq)

lemma count_list_pos: "x \<in> set xs \<Longrightarrow> \<exists>n. count_list xs x = Suc n"
  by (induction xs) auto

text \<open>
  C2. When the trip ids of the trips table are distinct, the segment of every trip that
  has stop_times rows is the list of the \<^verbatim>\<open>stop_id\<close> values of its rows in ascending order
  of \<^verbatim>\<open>stop_sequence\<close> (rows of equal stop_sequence in their input order), and that
  segment is a key of the Counter returned by \<^verbatim>\<open>extract_segments\<close>.
\<close>

theorem segment_in_stop_sequence_order:
  assumes "distinct (map trip_id trips)"
    and "k \<in> st_trip_id ` set stop_times"
  shows "\<exists>c n. extract_segments (loaded trips stop_times routes stops) = Inr ([], c) \<and>
           (\<forall>seg. (k, seg) \<in> set (trip_segments trips stop_times) \<longleftrightarrow>
              seg = map st_stop_id (sort_key st_stop_sequence
                      (filter (\<lambda>r. st_trip_id r = k) stop_times))) \<and>
           sorted (map st_stop_sequence (sort_key st_stop_sequence
                      (filter (\<lambda>r. st_trip_id r = k) stop_times))) \<and>
           map_of c (map st_stop_id (sort_key st_stop_sequence
                      (filter (\<lambda>r. st_trip_id r = k) stop_times))) = Some (Suc n)"
proof -
  let ?seg = "map st_stop_id (sort_key st_stop_sequence (filter (\<lambda>r. st_trip_id r = k) stop_times))"
  let ?c = "fold counter_incr (map snd (trip_segments trips stop_times)) []"
  have mem: "(k, seg) \<in> set (trip_segments trips stop_times) \<longleftrightarrow> seg = ?seg" for seg
    using assms(2) by (simp add: trip_segments_mem merged_distinct_trips [OF assms(1)])
  then have "(k, ?seg) \<in> set (trip_segments trips stop_times)" by simp
  then have in_keys: "?seg \<in> set (map snd (trip_segments trips stop_times))" by force
  then obtain n where "count_list (map snd (trip_segments trips stop_times)) ?seg = Suc n"
    using count_list_pos by fastforce
  with in_keys have "map_of ?c ?seg = Some (Suc n)"
    by (simp only: map_of_fold_counter) simp
  with mem show ?thesis
    by (simp only: extract_segments_loaded) simp
qed

text \<open>
  The trip with the stop_sequence values 3, 1, 2 at the stops A, B, C has the segment
  (B, C, A).
\<close>

theorem segment_in_stop_sequence_order_witness:
  "distinct (map trip_id [\<lparr>trip_id = 1::nat, route_id = Some ''R''\<rparr>]) \<and>
   trip_segments [\<lparr>trip_id = 1::nat, route_id = Some ''R''\<rparr>]
     [\<lparr>st_trip_id = 1, st_stop_sequence = 3, st_stop_id = ''A''\<rparr>,
      \<lparr>st_trip_id = 1, st_stop_sequence = 1, st_stop_id = ''B''\<rparr>,
      \<lparr>st_trip_id = 1, st_stop_sequence = 2, st_stop_id = ''C''\<rparr>]
   = [(1, [''B'', ''C'', ''A''])] \<and>
   extract_segments (loaded [\<lparr>trip_id = 1::nat, route_id = Some ''R''\<rparr>]
     [\<lparr>st_trip_id = 1, st_stop_sequence = 3, st_stop_id = ''A''\<rparr>,
      \<lparr>st_trip_id = 1, st_stop_sequence = 1, st_stop_id = ''B''\<rparr>,
      \<lparr>st_trip_id = 1, st_stop_sequence = 2, st_stop_id = ''C''\<rparr>]
     [\<lparr>r_route_id = ''R''\<rparr>] None)
   = Inr ([], [([''B'', ''C'', ''A''], 1)])"
  using segment_in_stop_sequence_order [of
     "[\<lparr>trip_id = 1::nat, route_id = Some ''R''\<rparr>]" 1
     "[\<lparr>st_trip_id = 1, st_stop_sequence = 3, st_stop_id = ''A''\<rparr>,
       \<lparr>st_trip_id = 1, st_stop_sequence = 1, st_stop_id = ''B''\<rparr>,
       \<lparr>st_trip_id = 1, st_stop_sequence = 2, st_stop_id = ''C''\<rparr>]"
     "[\<lparr>r_route_id = ''R''\<rparr>]" None]
  by (simp add: run_extract)

text \<open>
  C3. A permutation of the stop_times rows that keeps the relative order of the rows of
  every trip leaves the result of \<^verbatim>\<open>extract_segments\<close> unchanged.
\<close>

theorem row_order_across_trips_irrelevant:
  assumes "mset stop_times' = mset stop_times"
    and "\<forall>k. filter (\<lambda>r. st_trip_id r = k) stop_times' =
             filter (\<lambda>r. st_trip_id r = k) stop_times"
  shows "extract_segments (loaded trips stop_times' routes stops) =
         extract_segments (loaded trips stop_times routes stops)"
proof -
  from assms(1) have "set stop_times' = set stop_times" by (rule mset_eq_setD)
  with assms(2) have "trip_segments trips stop_times' = trip_segments trips stop_times"
    by (simp add: trip_segments_eq)
  then show ?thesis by (simp only: extract_segments_loaded)
qed

text \<open>
  The row of trip 2 moved from between the two rows of trip 1 to the front.
\<close>

theorem row_order_across_trips_irrelevant_witness:
  "extract_segments (loaded [\<lparr>trip_id = 1::nat, route_id = Some ''R''\<rparr>]
     [\<lparr>st_trip_id = 2, st_stop_sequence = 1, st_stop_id = ''C''\<rparr>,
      \<lparr>st_trip_id = 1, st_stop_sequence = 1, st_stop_id = ''A''\<rparr>,
      \<lparr>st_trip_id = 1, st_stop_sequence = 1, st_stop_id = ''B''\<rparr>]
     [\<lparr>r_route_id = ''R''\<rparr>] None) =
   extract_segments (loaded [\<lparr>trip_id = 1::nat, route_id = Some ''R''\<rparr>]
     [\<lparr>st_trip_id = 1, st_stop_sequence = 1, st_stop_id = ''A''\<rparr>,
      \<lparr>st_trip_id = 2, st_stop_sequence = 1, st_stop_id = ''C''\<rparr>,
      \<lparr>st_trip_id = 1, st_stop_sequence = 1, st_stop_id = ''B''\<rparr>]
     [\<lparr>r_route_id = ''R''\<rparr>] None)"
proof -
  let ?a = "\<lparr>st_trip_id = 1::nat, st_stop_sequence = 1, st_stop_id = ''A''\<rparr>"
  let ?b = "\<lparr>st_trip_id = 1::nat, st_stop_sequence = 1, st_stop_id = ''B''\<rparr>"
  let ?c = "\<lparr>st_trip_id = 2::nat, st_stop_sequence = 1, st_stop_id = ''C''\<rparr>"
  have p: "mset [?c, ?a, ?b] = mset [?a, ?c, ?b]" by simp
  have f: "\<forall>k. filter (\<lambda>r. st_trip_id r = k) [?c, ?a, ?b] =
               filter (\<lambda>r. st_trip_id r = k) [?a, ?c, ?b]" by simp
  show ?thesis by (rule row_order_across_trips_irrelevant [OF p f])
qed

lemma merge_left_proj:
  assumes h: "\<And>l r. h (row l r) = h0 l"
  shows "map h (merge_left lkey rkey row left right) =
         concat (map (\<lambda>l. replicate (max 1 (length (filter (\<lambda>x. x = lkey l) (map rkey right))))
                            (h0 l)) left)"
proof (induction left)
  case Nil
  show ?case by (simp add: merge_left_Nil)
next
  case (Cons l left)
  have "map h (case filter (\<lambda>r. rkey r = lkey l) right of
                 [] \<Rightarrow> [row l None] | ms \<Rightarrow> map (\<lambda>r. row l (Some r)) ms) =
        replicate (max 1 (length (filter (\<lambda>r. rkey r = lkey l) right))) (h0 l)"
    by (cases "filter (\<lambda>r. rkey r = lkey l) right") (simp_all add: h comp_def map_replicate_const)
  then show ?case
    by (simp add: merge_left_Cons Cons.IH filter_map comp_def)
qed

lemma segment_from_proj:
  "map tsr_stop_id (sort_key tsr_stop_sequence xs) =
   map snd (sort_key fst (map (\<lambda>r. (tsr_stop_sequence r, tsr_stop_id r)) xs))"
  by (simp add: sort_key_map comp_def)

lemma trip_segments_route_free:
  fixes stop_times :: "('k::linorder, 's) stop_time list"
  assumes "map trip_id trips' = map trip_id trips"
  shows "trip_segments trips' stop_times = trip_segments trips stop_times"
proof -
  have "map (\<lambda>r. (tsr_stop_sequence r, tsr_stop_id r)) (merged_trip_stop_times trips' sts) =
        map (\<lambda>r. (tsr_stop_sequence r, tsr_stop_id r)) (merged_trip_stop_times trips sts)"
    for sts :: "('k, 's) stop_time list"
    unfolding merged_trip_stop_times_def
    by (simp add: merge_left_proj [where ?h0.0 = "\<lambda>l. (st_stop_sequence l, st_stop_id l)"]
        join_trip_def assms)
  then show ?thesis
    by (simp add: trip_segments_eq segment_from_proj)
qed

lemma distinct_filter_eq_one:
  "distinct xs \<Longrightarrow> x \<in> set xs \<Longrightarrow> length (filter (\<lambda>y. y = x) xs) = 1"
  by (induction xs) (auto simp: filter_empty_conv)

lemma count_segments_card:
  assumes "distinct (map trip_id trips)"
  shows "length (filter (\<lambda>p. snd p = seg) (trip_segments trips stop_times)) =
         card {k \<in> st_trip_id ` set stop_times.
                 map st_stop_id (sort_key st_stop_sequence
                   (filter (\<lambda>r. st_trip_id r = k) stop_times)) = seg}"
proof -
  let ?f = "\<lambda>k. map st_stop_id (sort_key st_stop_sequence
                   (filter (\<lambda>r. st_trip_id r = k) stop_times))"
  let ?ks = "sorted_list_of_set (st_trip_id ` set stop_times)"
  have ts: "trip_segments trips stop_times = map (\<lambda>k. (k, ?f k)) ?ks"
    by (simp add: trip_segments_eq merged_distinct_trips [OF assms])
  have "length (filter (\<lambda>p. snd p = seg) (trip_segments trips stop_times)) =
        length (filter (\<lambda>k. ?f k = seg) ?ks)"
    by (simp add: ts filter_map comp_def)
  also have "\<dots> = card ({k. ?f k = seg} \<inter> set ?ks)"
    by (rule distinct_length_filter) simp
  also have "{k. ?f k = seg} \<inter> set ?ks = {k \<in> st_trip_id ` set stop_times. ?f k = seg}"
    by auto
  finally show ?thesis .
qed

text \<open>
  C1. With distinct trip ids in the trips table, two different trips whose stop_times
  rows, put in ascending order of \<^verbatim>\<open>stop_sequence\<close>, give the same tuple of stop ids
  are mapped by the loop to that same tuple, and the tuple is one key of the Counter: the
  key occurs once, and its count is the number of trips of stop_times with that ordered
  tuple, at least 2. The route ids play no part: a trips table with the same
  \<^verbatim>\<open>trip_id\<close> column and any \<^verbatim>\<open>route_id\<close> values, and any routes table, give the same
  Counter.
\<close>

theorem same_stops_one_shared_count:
  assumes "distinct (map trip_id trips)"
    and "k1 \<in> st_trip_id ` set stop_times"
    and "k2 \<in> st_trip_id ` set stop_times"
    and "k1 \<noteq> k2"
    and "map st_stop_id (sort_key st_stop_sequence
           (filter (\<lambda>r. st_trip_id r = k1) stop_times)) = seg"
    and "map st_stop_id (sort_key st_stop_sequence
           (filter (\<lambda>r. st_trip_id r = k2) stop_times)) = seg"
    and "map trip_id trips' = map trip_id trips"
  shows "\<exists>c n. extract_segments (loaded trips stop_times routes stops) = Inr ([], c) \<and>
           extract_segments (loaded trips' stop_times routes' stops) = Inr ([], c) \<and>
           (k1, seg) \<in> set (trip_segments trips stop_times) \<and>
           (k2, seg) \<in> set (trip_segments trips stop_times) \<and>
           length (filter (\<lambda>e. fst e = seg) c) = 1 \<and>
           map_of c seg = Some n \<and> 2 \<le> n \<and>
           n = card {k \<in> st_trip_id ` set stop_times.
                       map st_stop_id (sort_key st_stop_sequence
                         (filter (\<lambda>r. st_trip_id r = k) stop_times)) = seg}"
proof -
  let ?ts = "trip_segments trips stop_times"
  let ?c = "fold counter_incr (map snd ?ts) []"
  let ?n = "length (filter (\<lambda>p. snd p = seg) ?ts)"
  have m1: "(k1, seg) \<in> set ?ts"
    using assms(2,5) by (simp add: trip_segments_mem merged_distinct_trips [OF assms(1)])
  have m2: "(k2, seg) \<in> set ?ts"
    using assms(3,6) by (simp add: trip_segments_mem merged_distinct_trips [OF assms(1)])
  have same: "extract_segments (loaded trips' stop_times routes' stops) = Inr ([], ?c)"
    by (simp only: extract_segments_loaded trip_segments_route_free [OF assms(7)])
  have in_keys: "seg \<in> set (map snd ?ts)"
    using m1 by force
  have cnt: "count_list (map snd ?ts) seg = ?n"
    by (simp add: count_list_eq_length_filter filter_map comp_def eq_commute)
  have look: "map_of ?c seg = Some ?n"
    using in_keys by (simp only: map_of_fold_counter cnt) simp
  have dist: "distinct (map fst ?c)"
    by (rule distinct_fold_counter) simp
  have "seg \<in> fst ` set ?c"
    using in_keys by (simp add: keys_fold_counter)
  then have "seg \<in> set (map fst ?c)" by simp
  with dist have "length (filter (\<lambda>x. x = seg) (map fst ?c)) = 1"
    by (rule distinct_filter_eq_one)
  then have one: "length (filter (\<lambda>e. fst e = seg) ?c) = 1"
    by (simp add: filter_map comp_def)
  have "distinct [(k1, seg), (k2, seg)]" using assms(4) by simp
  moreover have "set [(k1, seg), (k2, seg)] \<subseteq> set (filter (\<lambda>p. snd p = seg) ?ts)"
    using m1 m2 by simp
  ultimately have "length [(k1, seg), (k2, seg)] \<le> ?n"
    by (metis card_mono distinct_card List.finite_set card_length le_trans)
  then have two: "2 \<le> ?n" by simp
  have card: "?n = card {k \<in> st_trip_id ` set stop_times.
                       map st_stop_id (sort_key st_stop_sequence
                         (filter (\<lambda>r. st_trip_id r = k) stop_times)) = seg}"
    by (rule count_segments_card [OF assms(1)])
  from same look one two m1 m2 card show ?thesis
    by (simp only: extract_segments_loaded) blast
qed

text \<open>
  Trips 1 and 2 visit A then B, on the routes R1 and R2, with different stop_sequence
  numbers and the rows of trip 1 out of order in the file: one key with the count 2, also
  when both trips are put on the route R1.
\<close>

theorem same_stops_one_shared_count_witness:
  "extract_segments (loaded
      [\<lparr>trip_id = 1::nat, route_id = Some ''R1''\<rparr>, \<lparr>trip_id = 2, route_id = Some ''R2''\<rparr>]
      [\<lparr>st_trip_id = 1, st_stop_sequence = 2, st_stop_id = ''B''\<rparr>,
       \<lparr>st_trip_id = 2, st_stop_sequence = 5, st_stop_id = ''A''\<rparr>,
       \<lparr>st_trip_id = 1, st_stop_sequence = 1, st_stop_id = ''A''\<rparr>,
       \<lparr>st_trip_id = 2, st_stop_sequence = 7, st_stop_id = ''B''\<rparr>]
      [\<lparr>r_route_id = ''R1''\<rparr>, \<lparr>r_route_id = ''R2''\<rparr>] None)
   = Inr ([], [([''A'', ''B''], 2)]) \<and>
   extract_segments (loaded
      [\<lparr>trip_id = 1::nat, route_id = Some ''R1''\<rparr>, \<lparr>trip_id = 2, route_id = Some ''R1''\<rparr>]
      [\<lparr>st_trip_id = 1, st_stop_sequence = 2, st_stop_id = ''B''\<rparr>,
       \<lparr>st_trip_id = 2, st_stop_sequence = 5, st_stop_id = ''A''\<rparr>,
       \<lparr>st_trip_id = 1, st_stop_sequence = 1, st_stop_id = ''A''\<rparr>,
       \<lparr>st_trip_id = 2, st_stop_sequence = 7, st_stop_id = ''B''\<rparr>]
      [\<lparr>r_route_id = ''R1''\<rparr>] None)
   = Inr ([], [([''A'', ''B''], 2)])"
proof -
  let ?trips = "[\<lparr>trip_id = 1::nat, route_id = Some ''R1''\<rparr>, \<lparr>trip_id = 2, route_id = Some ''R2''\<rparr>]"
  let ?trips' = "[\<lparr>trip_id = 1::nat, route_id = Some ''R1''\<rparr>, \<lparr>trip_id = 2, route_id = Some ''R1''\<rparr>]"
  let ?st = "[\<lparr>st_trip_id = 1::nat, st_stop_sequence = 2, st_stop_id = ''B''\<rparr>,
       \<lparr>st_trip_id = 2, st_stop_sequence = 5, st_stop_id = ''A''\<rparr>,
       \<lparr>st_trip_id = 1, st_stop_sequence = 1, st_stop_id = ''A''\<rparr>,
       \<lparr>st_trip_id = 2, st_stop_sequence = 7, st_stop_id = ''B''\<rparr>]"
  have h1: "distinct (map trip_id ?trips)" by simp
  have h2: "1 \<in> st_trip_id ` set ?st" by simp
  have h3: "2 \<in> st_trip_id ` set ?st" by simp
  have h4: "(1::nat) \<noteq> 2" by simp
  have h5: "map st_stop_id (sort_key st_stop_sequence (filter (\<lambda>r. st_trip_id r = 1) ?st))
              = [''A'', ''B'']" by simp
  have h6: "map st_stop_id (sort_key st_stop_sequence (filter (\<lambda>r. st_trip_id r = 2) ?st))
              = [''A'', ''B'']" by simp
  have h7: "map trip_id ?trips' = map trip_id ?trips" by simp
  have c: "extract_segments (loaded ?trips ?st [\<lparr>r_route_id = ''R1''\<rparr>, \<lparr>r_route_id = ''R2''\<rparr>] None)
        = Inr ([], [([''A'', ''B''], 2)])"
    by (simp add: run_extract)
  show ?thesis
    using same_stops_one_shared_count [OF h1 h2 h3 h4 h5 h6 h7,
        of "[\<lparr>r_route_id = ''R1''\<rparr>, \<lparr>r_route_id = ''R2''\<rparr>]" None "[\<lparr>r_route_id = ''R1''\<rparr>]"]
    by (simp only: c) simp
qed


lemma merge_left_right_cong:
  assumes "\<And>l. l \<in> set left \<Longrightarrow>
             filter (\<lambda>r. rkey r = lkey l) right' = filter (\<lambda>r. rkey r = lkey l) right"
  shows "merge_left lkey rkey row left right' = merge_left lkey rkey row left right"
  unfolding merge_left_def using assms by (simp cong: map_cong)

lemma merge_left_eq_Nil: "merge_left lkey rkey row left right = [] \<longleftrightarrow> left = []"
  by (cases left) (simp_all add: merge_left_Nil merge_left_Cons split: list.split)

lemma trip_segments_nonempty:
  assumes "(k, seg) \<in> set (trip_segments trips stop_times)"
  shows "seg \<noteq> []"
proof -
  from assms have k: "k \<in> st_trip_id ` set stop_times"
    and seg: "seg = map tsr_stop_id (sort_key tsr_stop_sequence
             (merged_trip_stop_times trips (filter (\<lambda>r. st_trip_id r = k) stop_times)))"
    by (simp_all add: trip_segments_mem)
  from k have "filter (\<lambda>r. st_trip_id r = k) stop_times \<noteq> []"
    by (auto simp: filter_empty_conv)
  then have "merged_trip_stop_times trips (filter (\<lambda>r. st_trip_id r = k) stop_times) \<noteq> []"
    by (simp add: merged_trip_stop_times_def merge_left_eq_Nil)
  then have "sort_key tsr_stop_sequence
      (merged_trip_stop_times trips (filter (\<lambda>r. st_trip_id r = k) stop_times)) \<noteq> []"
    by (metis length_sort length_0_conv)
  with seg show ?thesis by simp
qed

lemma trip_segments_drop_trip:
  assumes "k \<notin> st_trip_id ` set stop_times"
  shows "trip_segments (filter (\<lambda>t. trip_id t \<noteq> k) trips) stop_times =
         trip_segments trips stop_times"
proof -
  have "merged_trip_stop_times (filter (\<lambda>t. trip_id t \<noteq> k) trips) stop_times =
        merged_trip_stop_times trips stop_times"
    unfolding merged_trip_stop_times_def
  proof (rule merge_left_right_cong)
    fix l assume "l \<in> set stop_times"
    with assms have ne: "st_trip_id l \<noteq> k" by auto
    show "filter (\<lambda>r. trip_id r = st_trip_id l) (filter (\<lambda>t. trip_id t \<noteq> k) trips) =
               filter (\<lambda>r. trip_id r = st_trip_id l) trips"
      unfolding filter_filter by (rule filter_cong) (use ne in auto)
  qed
  then show ?thesis
    by (simp add: trip_segments_def trip_stop_times_def)
qed

text \<open>
  C4, as stated, fails. Trip 2 is in the trips table and has no stop_times row: the
  Counter holds the segment of trip 1 alone, and the empty tuple is not one of its keys.
\<close>

theorem trip_without_stop_times_counterexample:
  "extract_segments (loaded
      [\<lparr>trip_id = 1::nat, route_id = Some ''R1''\<rparr>, \<lparr>trip_id = 2, route_id = Some ''R1''\<rparr>]
      [\<lparr>st_trip_id = 1, st_stop_sequence = 1, st_stop_id = ''A''\<rparr>,
       \<lparr>st_trip_id = 1, st_stop_sequence = 2, st_stop_id = ''B''\<rparr>]
      [\<lparr>r_route_id = ''R1''\<rparr>] None)
   = Inr ([], [([''A'', ''B''], 1)]) \<and>
   map_of [([''A'', ''B''], 1::nat)] [] = None"
  by (simp add: run_extract)

text \<open>
  C4, amended. A trip of the trips table that has no stop_times row contributes nothing:
  \<^verbatim>\<open>extract_segments\<close> returns the same Counter as for the trips table without that
  trip, and the empty tuple is never a key of the result.
\<close>

theorem trip_without_stop_times_ignored:
  assumes "k \<notin> st_trip_id ` set stop_times"
  shows "\<exists>c. extract_segments (loaded trips stop_times routes stops) = Inr ([], c) \<and>
           extract_segments (loaded (filter (\<lambda>t. trip_id t \<noteq> k) trips) stop_times routes stops)
             = Inr ([], c) \<and>
           [] \<notin> fst ` set c"
proof -
  have "[] \<notin> set (map snd (trip_segments trips stop_times))"
    using trip_segments_nonempty [of _ "[]" trips stop_times] by auto
  then show ?thesis
    by (simp add: extract_segments_loaded trip_segments_drop_trip [OF assms] keys_fold_counter)
qed

text \<open>
  The table of the counterexample, with and without trip 2.
\<close>

theorem trip_without_stop_times_ignored_witness:
  "extract_segments (loaded
      [\<lparr>trip_id = 1::nat, route_id = Some ''R1''\<rparr>, \<lparr>trip_id = 2, route_id = Some ''R1''\<rparr>]
      [\<lparr>st_trip_id = 1, st_stop_sequence = 1, st_stop_id = ''A''\<rparr>,
       \<lparr>st_trip_id = 1, st_stop_sequence = 2, st_stop_id = ''B''\<rparr>]
      [\<lparr>r_route_id = ''R1''\<rparr>] None)
   = extract_segments (loaded
      [\<lparr>trip_id = 1::nat, route_id = Some ''R1''\<rparr>]
      [\<lparr>st_trip_id = 1, st_stop_sequence = 1, st_stop_id = ''A''\<rparr>,
       \<lparr>st_trip_id = 1, st_stop_sequence = 2, st_stop_id = ''B''\<rparr>]
      [\<lparr>r_route_id = ''R1''\<rparr>] None)"
proof -
  let ?st = "[\<lparr>st_trip_id = 1::nat, st_stop_sequence = 1, st_stop_id = ''A''\<rparr>,
       \<lparr>st_trip_id = 1, st_stop_sequence = 2, st_stop_id = ''B''\<rparr>]"
  have h: "(2::nat) \<notin> st_trip_id ` set ?st" by simp
  show ?thesis
    using trip_without_stop_times_ignored [OF h,
        of "[\<lparr>trip_id = 1::nat, route_id = Some ''R1''\<rparr>, \<lparr>trip_id = 2, route_id = Some ''R1''\<rparr>]"
           "[\<lparr>r_route_id = ''R1''\<rparr>]" None]
    by auto
qed

lemma draw_trip_location: "location (snd (draw_trip g acc)) = location (snd acc)"
  by (cases g; cases acc) (simp add: draw_trip_def Let_def)

lemma fold_draw_trip_location:
  "location (snd (fold draw_trip gs acc)) = location (snd acc)"
  by (induction gs arbitrary: acc) (simp_all add: draw_trip_location)

lemma plot_routes_on_map_location:
  assumes "stops_txt gtfs = Some stops_df"
    and "''stop_id'' \<in> set (stops_columns stops_df)"
    and "''stop_lat'' \<in> set (stops_columns stops_df)"
    and "''stop_lon'' \<in> set (stops_columns stops_df)"
    and "trips_txt gtfs \<noteq> None"
    and "stop_times_txt gtfs \<noteq> None"
    and "dropna (map stop_lat (stops_rows stops_df)) \<noteq> []"
    and "dropna (map stop_lon (stops_rows stops_df)) \<noteq> []"
  shows "\<exists>out m. plot_routes_on_map gtfs = Inr (out, Some m) \<and>
           location m = (Mean (dropna (map stop_lat (stops_rows stops_df))),
                         Mean (dropna (map stop_lon (stops_rows stops_df))))"
proof -
  from assms(5,6) obtain trips_df stop_times_df
    where t: "trips_txt gtfs = Some trips_df" and s: "stop_times_txt gtfs = Some stop_times_df"
    by auto
  let ?m0 = "\<lparr>location = (Mean (dropna (map stop_lat (stops_rows stops_df))),
                            Mean (dropna (map stop_lon (stops_rows stops_df)))),
             zoom_start = 12, polylines = []\<rparr>"
  let ?gs = "groupby pr_trip_id (plot_trip_stop_times (stops_rows stops_df) trips_df stop_times_df)"
  obtain out m where f: "fold draw_trip ?gs ([], ?m0) = (out, m)"
    by (cases "fold draw_trip ?gs ([], ?m0)")
  have "location m = location ?m0"
    using fold_draw_trip_location [of ?gs "([], ?m0)"] by (simp add: f)
  moreover have "plot_routes_on_map gtfs = Inr (out, Some m)"
    using assms(1-4,7,8) by (simp add: plot_routes_on_map_def t s mean_def Let_def f)
  ultimately show ?thesis by simp
qed

text \<open>
  The definitions that evaluate \<^verbatim>\<open>plot_routes_on_map\<close> and \<^verbatim>\<open>analyze_gtfs_feeds\<close> on a
  concrete input.
\<close>

lemmas run_plot =
  plot_routes_on_map_def plot_trip_stop_times_def merged_plot_rows_def merge_left_def
  join_stop_def join_trip_plot_def sort_values_def groupby_def mean_def dropna_def
  draw_trip_def coordinates_of_def Let_def

lemmas run_analyze =
  load_gtfs_from_directory_def load_file_def len_files_def required_files_def
  map_filename_def basename_def

lemma analyze_gtfs_feeds_append:
  "analyze_gtfs_feeds fs (pre @ rest) w =
     (case analyze_gtfs_feeds fs pre w of
        (None, w') \<Rightarrow> analyze_gtfs_feeds fs rest w'
      | (Some e, w') \<Rightarrow> (Some e, w'))"
proof (induction pre arbitrary: w)
  case Nil
  show ?case by simp
next
  case (Cons d pre)
  show ?case
    by (simp add: Cons.IH Let_def split: prod.split sum.split option.split)
qed

lemma snd_load_gtfs_from_directory:
  "snd (load_gtfs_from_directory fs directory) =
     \<lparr>trips_txt = (case trips_file (fs directory) of Parsed df \<Rightarrow> Some df | _ \<Rightarrow> None),
      stop_times_txt = (case stop_times_file (fs directory) of Parsed df \<Rightarrow> Some df | _ \<Rightarrow> None),
      routes_txt = (case routes_file (fs directory) of Parsed df \<Rightarrow> Some df | _ \<Rightarrow> None),
      stops_txt = (case stops_file (fs directory) of Parsed df \<Rightarrow> Some df | _ \<Rightarrow> None)\<rparr>"
  by (simp add: load_gtfs_from_directory_def load_file_def Let_def
      split: csv_file.split prod.split)

lemma not_parsed_None:
  "\<forall>df. f \<noteq> Parsed df \<Longrightarrow> (case f of Parsed df \<Rightarrow> Some df | _ \<Rightarrow> None) = None"
  by (cases f) simp_all

lemma plot_routes_on_map_missing:
  assumes "stops_txt gtfs = None \<or> trips_txt gtfs = None \<or> stop_times_txt gtfs = None"
  shows "\<exists>out. plot_routes_on_map gtfs = Inr (out, None)"
  using assms by (auto simp: plot_routes_on_map_def split: option.split)

lemma analyze_step_failed:
  assumes "(\<forall>df. stops_file (fs directory) \<noteq> Parsed df) \<or>
           (\<forall>df. trips_file (fs directory) \<noteq> Parsed df) \<or>
           (\<forall>df. stop_times_file (fs directory) \<noteq> Parsed df)"
  shows "\<exists>out. analyze_gtfs_feeds fs (directory # rest) w =
           analyze_gtfs_feeds fs rest (w\<lparr>stdout := stdout w @ out\<rparr>)"
proof -
  obtain out gtfs_data where ld: "load_gtfs_from_directory fs directory = (out, gtfs_data)"
    by (cases "load_gtfs_from_directory fs directory")
  from ld have "gtfs_data = snd (load_gtfs_from_directory fs directory)" by simp
  with assms have "stops_txt gtfs_data = None \<or> trips_txt gtfs_data = None \<or>
                   stop_times_txt gtfs_data = None"
    by (auto simp: snd_load_gtfs_from_directory not_parsed_None)
  then obtain out' where pl: "plot_routes_on_map gtfs_data = Inr (out', None)"
    using plot_routes_on_map_missing by blast
  show ?thesis
  proof (cases "len_files gtfs_data = 0")
    case True
    then have "analyze_gtfs_feeds fs (directory # rest) w =
          analyze_gtfs_feeds fs rest
            (w\<lparr>stdout := stdout w @ ([Processing directory] @ out @ [Skipping_directory directory])\<rparr>)"
      by (simp add: ld Let_def)
    then show ?thesis by blast
  next
    case False
    then have "analyze_gtfs_feeds fs (directory # rest) w =
          analyze_gtfs_feeds fs rest
            (w\<lparr>stdout := stdout w @ ([Processing directory] @ out @ out' @
                                        [Failed_to_generate directory])\<rparr>)"
      by (simp add: ld pl Let_def)
    then show ?thesis by blast
  qed
qed

text \<open>
  C9. A directory for which stops.txt, trips.txt or stop_times.txt is not loaded (absent
  or unreadable) raises nothing and saves nothing: once the loop reaches it, it prints
  its lines and goes on with the rest of the list, from the same saved files.
\<close>

theorem failed_feed_does_not_stop_later_feeds:
  assumes "(\<forall>df. stops_file (fs directory) \<noteq> Parsed df) \<or>
           (\<forall>df. trips_file (fs directory) \<noteq> Parsed df) \<or>
           (\<forall>df. stop_times_file (fs directory) \<noteq> Parsed df)"
    and "analyze_gtfs_feeds fs pre w = (None, w')"
  shows "\<exists>out. analyze_gtfs_feeds fs (pre @ directory # rest) w =
           analyze_gtfs_feeds fs rest (w'\<lparr>stdout := stdout w' @ out\<rparr>)"
  using assms(1) analyze_step_failed [of fs directory rest w']
  by (simp add: analyze_gtfs_feeds_append assms(2))

text \<open>
  The directories feeds/a, without stops.txt, and feeds/b, complete: the map of feeds/b is
  saved.
\<close>

theorem failed_feed_does_not_stop_later_feeds_witness:
  "analyze_gtfs_feeds
     (\<lambda>d. if d = ''feeds/b''
          then \<lparr>trips_file = Parsed [\<lparr>trip_id = 1::nat, route_id = Some ''R1''\<rparr>],
                stop_times_file = Parsed
                  [\<lparr>st_trip_id = 1, st_stop_sequence = 2, st_stop_id = ''S2''\<rparr>,
                   \<lparr>st_trip_id = 1, st_stop_sequence = 1, st_stop_id = ''S1''\<rparr>],
                routes_file = Parsed [\<lparr>r_route_id = ''R1''\<rparr>],
                stops_file = Parsed \<lparr>stops_columns = [''stop_id'', ''stop_lat'', ''stop_lon''],
                  stops_rows = [\<lparr>s_stop_id = ''S1'', stop_lat = Some 10, stop_lon = Some 20\<rparr>,
                                \<lparr>s_stop_id = ''S2'', stop_lat = Some 10, stop_lon = Some 21\<rparr>]\<rparr>\<rparr>
          else \<lparr>trips_file = Parsed [\<lparr>trip_id = 1::nat, route_id = Some ''R1''\<rparr>],
                stop_times_file = Parsed
                  [\<lparr>st_trip_id = 1, st_stop_sequence = 2, st_stop_id = ''S2''\<rparr>,
                   \<lparr>st_trip_id = 1, st_stop_sequence = 1, st_stop_id = ''S1''\<rparr>],
                routes_file = Parsed [\<lparr>r_route_id = ''R1''\<rparr>],
                stops_file = Absent\<rparr>)
     [''feeds/a'', ''feeds/b''] \<lparr>stdout = [], saved = []\<rparr>
   = (None,
      \<lparr>stdout = [Processing ''feeds/a'', Warning_not_found ''stops.txt'' ''feeds/a'',
                 Warning_missing_some ''feeds/a'', Error_stops_not_found,
                 Failed_to_generate ''feeds/a'', Processing ''feeds/b'',
                 Map_saved ''routes_map_b.html''],
       saved = [(''routes_map_b.html'',
                 \<lparr>location = (Mean [10, 10], Mean [20, 21]), zoom_start = 12,
                  polylines = [\<lparr>locations = [(10, 20), (10, 21)], color = ''blue'',
                                weight = ''2.5'', opacity = ''0.8''\<rparr>]\<rparr>)]\<rparr>)"
proof -
  let ?fs = "\<lambda>d. if d = ''feeds/b''
          then \<lparr>trips_file = Parsed [\<lparr>trip_id = 1::nat, route_id = Some ''R1''\<rparr>],
                stop_times_file = Parsed
                  [\<lparr>st_trip_id = 1, st_stop_sequence = 2, st_stop_id = ''S2''\<rparr>,
                   \<lparr>st_trip_id = 1, st_stop_sequence = 1, st_stop_id = ''S1''\<rparr>],
                routes_file = Parsed [\<lparr>r_route_id = ''R1''\<rparr>],
                stops_file = Parsed \<lparr>stops_columns = [''stop_id'', ''stop_lat'', ''stop_lon''],
                  stops_rows = [\<lparr>s_stop_id = ''S1'', stop_lat = Some 10, stop_lon = Some 20\<rparr>,
                                \<lparr>s_stop_id = ''S2'', stop_lat = Some 10, stop_lon = Some 21\<rparr>]\<rparr>\<rparr>
          else \<lparr>trips_file = Parsed [\<lparr>trip_id = 1::nat, route_id = Some ''R1''\<rparr>],
                stop_times_file = Parsed
                  [\<lparr>st_trip_id = 1, st_stop_sequence = 2, st_stop_id = ''S2''\<rparr>,
                   \<lparr>st_trip_id = 1, st_stop_sequence = 1, st_stop_id = ''S1''\<rparr>],
                routes_file = Parsed [\<lparr>r_route_id = ''R1''\<rparr>],
                stops_file = Absent\<rparr>"
  let ?w = "\<lparr>stdout = [], saved = []\<rparr> :: nat world"
  have h1: "(\<forall>df. stops_file (?fs ''feeds/a'') \<noteq> Parsed df) \<or>
            (\<forall>df. trips_file (?fs ''feeds/a'') \<noteq> Parsed df) \<or>
            (\<forall>df. stop_times_file (?fs ''feeds/a'') \<noteq> Parsed df)"
    by simp
  have h2: "analyze_gtfs_feeds ?fs [] ?w = (None, ?w)" by simp
  show ?thesis
    using failed_feed_does_not_stop_later_feeds [of ?fs "''feeds/a''" "[]" ?w ?w "[''feeds/b'']",
        OF h1 h2]
    by (simp add: run_analyze run_plot)
qed






end
